theory Spec2Isabelle
  imports Main "HOL-Library.AList" "HOL-Library.Multiset"
begin

text \<open>
  The incident and pack lifecycle of the Code Red tracker: the row types of
  \<open>shared/schema.ts\<close>, the storage class \<open>MemStorage\<close> behind the interface \<open>IStorage\<close>
  (the class \<open>DatabaseStorage\<close> issues the same reads and writes as SQL statements), the
  request schemas, and the \<open>PATCH\<close> handlers of \<open>registerRoutes\<close> for pack stages and
  estimates. Every storage operation takes the store and returns the store it leaves; the
  instant that \<open>new Date()\<close> reads is an argument \<open>now\<close>, and the host's time zone, where
  local time is read, an argument \<open>LocalTZA\<close>.
\<close>

section \<open>Data model (shared/schema.ts)\<close>

text \<open>
  A JavaScript \<open>Date\<close> is its time value: milliseconds since the epoch, an integer. The
  development covers valid dates only (no \<open>NaN\<close> time value). A nullable timestamp column is
  an \<open>int option\<close>. Identifiers (\<open>serial\<close> columns, \<open>z.number()\<close> ids and stages) are integers.
\<close>

type_synonym Date = int

text \<open>Row type of the table \<open>code_red_events\<close> (\<open>CodeRedEvent\<close>).\<close>

record CodeRedEvent =
  id_ev :: int
  activationTime :: Date
  labType :: string
  location :: string
  patientMRN :: string
  originalLocation :: string
  locationHistory :: "string list"
  assignedRunnerId :: "string option"
  assignedClinicianId :: "string option"
  isActive :: bool
  deactivationTime :: "Date option"

text \<open>Row type of the table \<open>packs\<close> (\<open>Pack\<close>).\<close>

record Pack =
  id_pk :: int
  codeRedEventId :: int
  name_pk :: string
  composition :: string
  ffp :: int
  cryo :: int
  platelets :: int
  currentStage :: int
  estimatedReadyTime :: "Date option"
  orderReceivedTime :: "Date option"
  readyForCollectionTime :: "Date option"
  runnerEnRouteToLabTime :: "Date option"
  orderCollectedTime :: "Date option"
  runnerEnRouteToClinicalTime :: "Date option"
  productArrivedTime :: "Date option"
  runnerEstimatedArrivalAtLab :: "Date option"
  runnerEstimatedArrivalAtClinical :: "Date option"

text \<open>
  \<open>InsertCodeRedEvent\<close> and \<open>InsertPack\<close>: the parsed request bodies. Optional properties
  are options.
\<close>

record InsertCodeRedEvent =
  ins_activationTime :: Date
  ins_labType :: string
  ins_location :: string
  ins_patientMRN :: string
  ins_assignedRunnerId :: "string option"
  ins_assignedClinicianId :: "string option"

record InsertPack =
  ins_codeRedEventId :: int
  ins_name :: string
  ins_composition :: string
  ins_ffp :: "int option"
  ins_cryo :: "int option"
  ins_platelets :: "int option"
  ins_runnerEstimatedArrivalAtLab :: "Date option"
  ins_runnerEstimatedArrivalAtClinical :: "Date option"

record UpdatePackStage =
  ups_packId :: int
  ups_stage :: int

record UpdatePackEstimate =
  upe_packId :: int
  upe_estimatedMinutes :: "int option"

record UpdateCodeRedLocation =
  ucl_codeRedId :: int
  ucl_newLocation :: string

datatype userType = runner | clinician

section \<open>The in-memory store (class MemStorage)\<close>

text \<open>
  A JavaScript \<open>Map\<close> iterates in insertion order; \<open>set\<close> on a present key replaces the
  value in place and on a new key appends; \<open>delete\<close> removes the key. This is an association
  list with \<open>map_of\<close> for \<open>get\<close>, \<open>AList.update\<close> for \<open>set\<close> and \<open>AList.delete\<close> for
  \<open>delete\<close>.
\<close>

type_synonym ('k, 'v) Map = "('k \<times> 'v) list"

abbreviation Map_get :: "('k, 'v) Map \<Rightarrow> 'k \<Rightarrow> 'v option" where
  "Map_get m k \<equiv> map_of m k"

abbreviation Map_set :: "'k \<Rightarrow> 'v \<Rightarrow> ('k, 'v) Map \<Rightarrow> ('k, 'v) Map" where
  "Map_set k v m \<equiv> AList.update k v m"

abbreviation Map_delete :: "'k \<Rightarrow> ('k, 'v) Map \<Rightarrow> ('k, 'v) Map" where
  "Map_delete k m \<equiv> AList.delete k m"

abbreviation Map_values :: "('k, 'v) Map \<Rightarrow> 'v list" where
  "Map_values m \<equiv> map snd m"

record MemStorage =
  codeRedEvents :: "(int, CodeRedEvent) Map"
  packs :: "(int, Pack) Map"
  currentCodeRedId :: int
  currentPackId :: int

text \<open>The constructor.\<close>

definition MemStorage_new :: MemStorage where
  "MemStorage_new =
     \<lparr>codeRedEvents = [], packs = [], currentCodeRedId = 1, currentPackId = 1\<rparr>"

text \<open>Map keys are unique; every operation below keeps them so.\<close>

definition keys_unique :: "MemStorage \<Rightarrow> bool" where
  "keys_unique s = (distinct (map fst (codeRedEvents s)) \<and> distinct (map fst (packs s)))"

text \<open>
  Errors. \<open>NotFound_CodeRedEvent i\<close> is \<open>new Error(`Code Red event ${i} not found`)\<close>,
  \<open>NotFound_Pack i\<close> is \<open>new Error(`Pack with id ${i} not found`)\<close>, and \<open>ZodError\<close> is the
  error thrown by a schema's \<open>parse\<close>, with the issue code of the violated bound
  (\<open>.min\<close> gives \<open>too_small\<close>, \<open>.max\<close> gives \<open>too_big\<close>).
\<close>

datatype zod_issue = too_small | too_big

datatype error = NotFound_CodeRedEvent int | NotFound_Pack int | ZodError zod_issue

subsection \<open>Incidents\<close>

text \<open>\<open>x || null\<close> on an optional string: undefined and the empty string both give null.\<close>

definition or_null :: "string option \<Rightarrow> string option" where
  "or_null x = (case x of None \<Rightarrow> None | Some v \<Rightarrow> if v = [] then None else Some v)"

definition createCodeRedEvent :: "InsertCodeRedEvent \<Rightarrow> MemStorage \<Rightarrow> CodeRedEvent \<times> MemStorage" where
  "createCodeRedEvent insertEvent s =
     (let i = currentCodeRedId s;
          event = \<lparr>id_ev = i,
                   activationTime = ins_activationTime insertEvent,
                   labType = ins_labType insertEvent,
                   location = ins_location insertEvent,
                   patientMRN = ins_patientMRN insertEvent,
                   originalLocation = ins_location insertEvent,
                   locationHistory = [],
                   assignedRunnerId = or_null (ins_assignedRunnerId insertEvent),
                   assignedClinicianId = or_null (ins_assignedClinicianId insertEvent),
                   isActive = True,
                   deactivationTime = None\<rparr>
      in (event, s\<lparr>currentCodeRedId := i + 1,
                    codeRedEvents := Map_set i event (codeRedEvents s)\<rparr>))"

text \<open>\<open>Array.from(this.packs.values()).filter(pack => pack.codeRedEventId === eventId)\<close>\<close>

definition getPacksByCodeRedEventId :: "int \<Rightarrow> MemStorage \<Rightarrow> Pack list" where
  "getPacksByCodeRedEventId eventId s =
     filter (\<lambda>pack. codeRedEventId pack = eventId) (Map_values (packs s))"

text \<open>
  \<open>Array.prototype.sort(compareFn)\<close> is stable, and \<open>a\<close> goes before \<open>b\<close> where
  \<open>compareFn(a, b) < 0\<close>. For a consistent comparator the result is the stable sorted
  permutation, computed here by insertion from the right.
\<close>

fun insort_cmp :: "('a \<Rightarrow> 'a \<Rightarrow> int) \<Rightarrow> 'a \<Rightarrow> 'a list \<Rightarrow> 'a list" where
  "insort_cmp compareFn a [] = [a]"
| "insort_cmp compareFn a (b # bs) =
     (if compareFn a b \<le> 0 then a # b # bs else b # insort_cmp compareFn a bs)"

definition Array_sort :: "('a \<Rightarrow> 'a \<Rightarrow> int) \<Rightarrow> 'a list \<Rightarrow> 'a list" where
  "Array_sort compareFn xs = foldr (insort_cmp compareFn) xs []"

text \<open>
  \<open>getAllCodeRedEventsForAudit\<close>: all stored events, sorted with the comparator
  \<open>(a, b) => b.activationTime - a.activationTime\<close>, each joined with its packs.
\<close>

definition getAllCodeRedEventsForAudit :: "MemStorage \<Rightarrow> (CodeRedEvent \<times> Pack list) list" where
  "getAllCodeRedEventsForAudit s =
     (let allEvents = Array_sort (\<lambda>a b. activationTime b - activationTime a)
                        (Map_values (codeRedEvents s))
      in map (\<lambda>event. (event, getPacksByCodeRedEventId (id_ev event) s)) allEvents)"

text \<open>The result type \<open>CodeRedEvent & { packs: Pack[] }\<close> is a pair; \<open>null\<close> is \<open>None\<close>.\<close>

definition getCodeRedEventById :: "int \<Rightarrow> MemStorage \<Rightarrow> (CodeRedEvent \<times> Pack list) option" where
  "getCodeRedEventById i s =
     (case Map_get (codeRedEvents s) i of
        None \<Rightarrow> None
      | Some event \<Rightarrow>
          if \<not> isActive event then None
          else Some (event, getPacksByCodeRedEventId i s))"


text \<open>\<open>assignUserToCodeRed\<close>: a missing event is a silent return.\<close>

definition assignUserToCodeRed :: "int \<Rightarrow> string \<Rightarrow> userType \<Rightarrow> MemStorage \<Rightarrow> MemStorage" where
  "assignUserToCodeRed codeRedId userId ut s =
     (case Map_get (codeRedEvents s) codeRedId of
        None \<Rightarrow> s
      | Some event \<Rightarrow>
          let updatedEvent = event
                \<lparr>assignedRunnerId :=
                   (if ut = runner then Some userId else assignedRunnerId event),
                 assignedClinicianId :=
                   (if ut = clinician then Some userId else assignedClinicianId event)\<rparr>
          in s\<lparr>codeRedEvents := Map_set codeRedId updatedEvent (codeRedEvents s)\<rparr>)"

definition deactivateCodeRedEvent :: "Date \<Rightarrow> int \<Rightarrow> MemStorage \<Rightarrow> MemStorage" where
  "deactivateCodeRedEvent now i s =
     (case Map_get (codeRedEvents s) i of
        None \<Rightarrow> s
      | Some event \<Rightarrow>
          let updatedEvent = event\<lparr>isActive := False, deactivationTime := Some now\<rparr>
          in s\<lparr>codeRedEvents := Map_set i updatedEvent (codeRedEvents s)\<rparr>)"

text \<open>
  \<open>deleteCodeRedEvent\<close>: the event's key is deleted, then the keys of the entries whose pack
  belongs to the event are collected and deleted one by one (\<open>forEach\<close>).
\<close>

definition deleteCodeRedEvent :: "int \<Rightarrow> MemStorage \<Rightarrow> MemStorage" where
  "deleteCodeRedEvent i s =
     (let events' = Map_delete i (codeRedEvents s);
          packsToDelete =
            map (\<lambda>(packId, _). packId)
              (filter (\<lambda>(_, pack). codeRedEventId pack = i) (packs s))
      in s\<lparr>codeRedEvents := events',
            packs := fold (\<lambda>packId m. Map_delete packId m) packsToDelete (packs s)\<rparr>)"

text \<open>
  \<open>updateCodeRedLocation\<close>. The history entry is the template string
  \<open>`${timestamp}: Moved from "${event.location}" to "${data.newLocation}"`\<close> where
  \<open>timestamp = new Date().toISOString()\<close>; the rendering \<open>toISOString\<close> of an instant is a
  parameter. A throw leaves the store as it was.
\<close>

definition locationUpdate :: "string \<Rightarrow> string \<Rightarrow> string \<Rightarrow> string" where
  "locationUpdate timestamp from to =
     timestamp @ '': Moved from '' @ [CHR 0x22] @ from @ [CHR 0x22] @ '' to '' @
     [CHR 0x22] @ to @ [CHR 0x22]"

definition updateCodeRedLocation ::
  "(Date \<Rightarrow> string) \<Rightarrow> Date \<Rightarrow> UpdateCodeRedLocation \<Rightarrow> MemStorage \<Rightarrow>
     (error + CodeRedEvent) \<times> MemStorage" where
  "updateCodeRedLocation toISOString now data s =
     (case Map_get (codeRedEvents s) (ucl_codeRedId data) of
        None \<Rightarrow> (Inl (NotFound_CodeRedEvent (ucl_codeRedId data)), s)
      | Some event \<Rightarrow>
          let timestamp = toISOString now;
              updatedEvent = event
                \<lparr>location := ucl_newLocation data,
                 locationHistory := locationHistory event @
                   [locationUpdate timestamp (location event) (ucl_newLocation data)]\<rparr>
          in (Inr updatedEvent,
              s\<lparr>codeRedEvents := Map_set (ucl_codeRedId data) updatedEvent (codeRedEvents s)\<rparr>))"

subsection \<open>Packs\<close>

text \<open>\<open>x || 0\<close> on an optional count.\<close>

definition or_zero :: "int option \<Rightarrow> int" where
  "or_zero x = (case x of None \<Rightarrow> 0 | Some n \<Rightarrow> n)"

text \<open>
  \<open>createPack\<close>. It reads \<open>currentPackId\<close> and writes \<open>packs\<close>; the arrival estimates of
  the request are not copied.
\<close>

definition createPack :: "Date \<Rightarrow> InsertPack \<Rightarrow> MemStorage \<Rightarrow> Pack \<times> MemStorage" where
  "createPack now insertPack s =
     (let i = currentPackId s;
          pack = \<lparr>id_pk = i,
                  codeRedEventId = ins_codeRedEventId insertPack,
                  name_pk = ins_name insertPack,
                  composition = ins_composition insertPack,
                  ffp = or_zero (ins_ffp insertPack),
                  cryo = or_zero (ins_cryo insertPack),
                  platelets = or_zero (ins_platelets insertPack),
                  currentStage = 1,
                  estimatedReadyTime = None,
                  orderReceivedTime = Some now,
                  readyForCollectionTime = None,
                  runnerEnRouteToLabTime = None,
                  orderCollectedTime = None,
                  runnerEnRouteToClinicalTime = None,
                  productArrivedTime = None,
                  runnerEstimatedArrivalAtLab = None,
                  runnerEstimatedArrivalAtClinical = None\<rparr>
      in (pack, s\<lparr>currentPackId := i + 1, packs := Map_set i pack (packs s)\<rparr>))"

definition getPackById :: "int \<Rightarrow> MemStorage \<Rightarrow> Pack option" where
  "getPackById i s = Map_get (packs s) i"

text \<open>The \<open>switch (data.stage)\<close> of \<open>updatePackStage\<close>; no \<open>default\<close> branch.\<close>

definition stamp_stage :: "int \<Rightarrow> Date \<Rightarrow> Pack \<Rightarrow> Pack" where
  "stamp_stage stage now updatedPack =
     (if stage = 1 then updatedPack\<lparr>orderReceivedTime := Some now\<rparr>
      else if stage = 2 then updatedPack\<lparr>readyForCollectionTime := Some now\<rparr>
      else if stage = 3 then updatedPack\<lparr>runnerEnRouteToLabTime := Some now\<rparr>
      else if stage = 4 then updatedPack\<lparr>orderCollectedTime := Some now\<rparr>
      else if stage = 5 then updatedPack\<lparr>runnerEnRouteToClinicalTime := Some now\<rparr>
      else if stage = 6 then updatedPack\<lparr>productArrivedTime := Some now\<rparr>
      else updatedPack)"

definition updatePackStage ::
  "Date \<Rightarrow> UpdatePackStage \<Rightarrow> MemStorage \<Rightarrow> (error + Pack) \<times> MemStorage" where
  "updatePackStage now data s =
     (case Map_get (packs s) (ups_packId data) of
        None \<Rightarrow> (Inl (NotFound_Pack (ups_packId data)), s)
      | Some pack \<Rightarrow>
          let updatedPack = stamp_stage (ups_stage data) now
                              (pack\<lparr>currentStage := ups_stage data\<rparr>)
          in (Inr updatedPack,
              s\<lparr>packs := Map_set (ups_packId data) updatedPack (packs s)\<rparr>))"

text \<open>
  Time values after ECMAScript (section Time Values and Time Range): the fields of a time
  value, and \<open>MakeTime\<close> and \<open>MakeDate\<close> that put them together again.
\<close>

definition Day :: "int \<Rightarrow> int" where
  "Day t = t div 86400000"

definition HourFromTime :: "int \<Rightarrow> int" where
  "HourFromTime t = (t div 3600000) mod 24"

definition MinFromTime :: "int \<Rightarrow> int" where
  "MinFromTime t = (t div 60000) mod 60"

definition SecFromTime :: "int \<Rightarrow> int" where
  "SecFromTime t = (t div 1000) mod 60"

definition msFromTime :: "int \<Rightarrow> int" where
  "msFromTime t = t mod 1000"

definition MakeTime :: "int \<Rightarrow> int \<Rightarrow> int \<Rightarrow> int \<Rightarrow> int" where
  "MakeTime hour minute sec ms = hour * 3600000 + minute * 60000 + sec * 1000 + ms"

definition MakeDate :: "int \<Rightarrow> int \<Rightarrow> int" where
  "MakeDate day time = day * 86400000 + time"

text \<open>
  The host's time zone is ECMAScript's \<open>LocalTZA(t, isUTC)\<close>, the offset of local time from
  UTC in milliseconds: with \<open>isUTC\<close> true, the offset in force at the instant \<open>t\<close>; with
  \<open>isUTC\<close> false, the offset by which the local time value \<open>t\<close> is read, which at a local
  time that a transition repeats or skips is the offset before the transition. The source
  does not fix the zone, so it is a parameter of everything that reads local time.
\<close>

type_synonym TimeZone = "int \<Rightarrow> bool \<Rightarrow> int"

definition LocalTime :: "TimeZone \<Rightarrow> int \<Rightarrow> int" where
  "LocalTime LocalTZA t = t + LocalTZA t True"

definition UTC :: "TimeZone \<Rightarrow> int \<Rightarrow> int" where
  "UTC LocalTZA t = t - LocalTZA t False"

text \<open>
  \<open>Date.prototype.getMinutes\<close> and \<open>Date.prototype.setMinutes(min)\<close>: the minutes field of
  the local time is read, and replaced in the local time, which is then read back as an
  instant by the offset that belongs to the new local time. (\<open>TimeClip\<close> is the identity on
  the time values at hand.)
\<close>

definition Date_getMinutes :: "TimeZone \<Rightarrow> Date \<Rightarrow> int" where
  "Date_getMinutes LocalTZA thisTime = MinFromTime (LocalTime LocalTZA thisTime)"

definition Date_setMinutes :: "TimeZone \<Rightarrow> Date \<Rightarrow> int \<Rightarrow> Date" where
  "Date_setMinutes LocalTZA thisTime m =
     (let t = LocalTime LocalTZA thisTime;
          date = MakeDate (Day t) (MakeTime (HourFromTime t) m (SecFromTime t) (msFromTime t))
      in UTC LocalTZA date)"

definition updatePackEstimate ::
  "TimeZone \<Rightarrow> Date \<Rightarrow> UpdatePackEstimate \<Rightarrow> MemStorage \<Rightarrow> (error + Pack) \<times> MemStorage" where
  "updatePackEstimate LocalTZA now data s =
     (case Map_get (packs s) (upe_packId data) of
        None \<Rightarrow> (Inl (NotFound_Pack (upe_packId data)), s)
      | Some pack \<Rightarrow>
          let estimatedReadyTime' =
                (case upe_estimatedMinutes data of
                   None \<Rightarrow> None
                 | Some minutes \<Rightarrow>
                     Some (Date_setMinutes LocalTZA now
                             (Date_getMinutes LocalTZA now + minutes)));
              updatedPack = pack\<lparr>estimatedReadyTime := estimatedReadyTime'\<rparr>
          in (Inr updatedPack,
              s\<lparr>packs := Map_set (upe_packId data) updatedPack (packs s)\<rparr>))"

section \<open>Request validation and route handlers\<close>

text \<open>
  \<open>updatePackStageSchema\<close> is \<open>stage: z.number().min(1).max(6)\<close> and
  \<open>updatePackEstimateSchema\<close> is \<open>estimatedMinutes: z.number().min(1).max(120).nullable()\<close>;
  \<open>parse\<close> throws a \<open>ZodError\<close> or returns the data.
\<close>

definition updatePackStageSchema_parse :: "UpdatePackStage \<Rightarrow> error + UpdatePackStage" where
  "updatePackStageSchema_parse body =
     (if ups_stage body < 1 then Inl (ZodError too_small)
      else if 6 < ups_stage body then Inl (ZodError too_big)
      else Inr body)"

definition updatePackEstimateSchema_parse :: "UpdatePackEstimate \<Rightarrow> error + UpdatePackEstimate" where
  "updatePackEstimateSchema_parse body =
     (case upe_estimatedMinutes body of
        None \<Rightarrow> Inr body
      | Some minutes \<Rightarrow>
          if minutes < 1 then Inl (ZodError too_small)
          else if 120 < minutes then Inl (ZodError too_big)
          else Inr body)"

text \<open>
  \<open>PATCH /api/packs/stage\<close> and \<open>PATCH /api/packs/estimate\<close>: the body is parsed and the
  storage operation runs on the validated data. The handler answers a \<open>ZodError\<close> with
  status 400 and any other error with status 500; the store is not touched on either.
\<close>

definition patch_packs_stage ::
  "Date \<Rightarrow> UpdatePackStage \<Rightarrow> MemStorage \<Rightarrow> (error + Pack) \<times> MemStorage" where
  "patch_packs_stage now body s =
     (case updatePackStageSchema_parse body of
        Inl e \<Rightarrow> (Inl e, s)
      | Inr validatedData \<Rightarrow> updatePackStage now validatedData s)"

definition patch_packs_estimate ::
  "TimeZone \<Rightarrow> Date \<Rightarrow> UpdatePackEstimate \<Rightarrow> MemStorage \<Rightarrow> (error + Pack) \<times> MemStorage" where
  "patch_packs_estimate LocalTZA now body s =
     (case updatePackEstimateSchema_parse body of
        Inl e \<Rightarrow> (Inl e, s)
      | Inr validatedData \<Rightarrow> updatePackEstimate LocalTZA now validatedData s)"

section \<open>Reading a stage's timestamp (pack-tracking-card.tsx)\<close>

definition getStageTime :: "int \<Rightarrow> Pack \<Rightarrow> Date option" where
  "getStageTime stage pack =
     (if stage = 1 then orderReceivedTime pack
      else if stage = 2 then readyForCollectionTime pack
      else if stage = 3 then runnerEnRouteToLabTime pack
      else if stage = 4 then orderCollectedTime pack
      else if stage = 5 then runnerEnRouteToClinicalTime pack
      else if stage = 6 then productArrivedTime pack
      else None)"

section \<open>Example data\<close>

text \<open>
  A store with an active incident 1 and a deactivated incident 2, one pack under each,
  and the request bodies used on it.
\<close>

definition event_1 :: CodeRedEvent where
  "event_1 =
     \<lparr>id_ev = 1, activationTime = 1000, labType = ''Main Lab'', location = ''ED Resus 1'',
      patientMRN = ''MRN001'', originalLocation = ''ED Resus 1'', locationHistory = [],
      assignedRunnerId = None, assignedClinicianId = Some ''c1'', isActive = True,
      deactivationTime = None\<rparr>"

definition event_2 :: CodeRedEvent where
  "event_2 =
     \<lparr>id_ev = 2, activationTime = 5000, labType = ''Satellite Lab'', location = ''Theatre 4'',
      patientMRN = ''MRN002'', originalLocation = ''Theatre 4'', locationHistory = [],
      assignedRunnerId = Some ''r1'', assignedClinicianId = None, isActive = False,
      deactivationTime = Some 9000\<rparr>"

definition pack_1 :: Pack where
  "pack_1 =
     \<lparr>id_pk = 1, codeRedEventId = 1, name_pk = ''Pack A'',
      composition = ''6 FFP, 2 Cryo, 1 Platelets'', ffp = 6, cryo = 2, platelets = 1,
      currentStage = 4, estimatedReadyTime = Some 2500, orderReceivedTime = Some 1100,
      readyForCollectionTime = Some 1200, runnerEnRouteToLabTime = Some 1300,
      orderCollectedTime = Some 1400, runnerEnRouteToClinicalTime = None,
      productArrivedTime = None, runnerEstimatedArrivalAtLab = None,
      runnerEstimatedArrivalAtClinical = None\<rparr>"

definition pack_2 :: Pack where
  "pack_2 =
     \<lparr>id_pk = 2, codeRedEventId = 2, name_pk = ''Pack B'',
      composition = ''4 FFP'', ffp = 4, cryo = 0, platelets = 0,
      currentStage = 1, estimatedReadyTime = None, orderReceivedTime = Some 5100,
      readyForCollectionTime = None, runnerEnRouteToLabTime = None,
      orderCollectedTime = None, runnerEnRouteToClinicalTime = None,
      productArrivedTime = None, runnerEstimatedArrivalAtLab = None,
      runnerEstimatedArrivalAtClinical = None\<rparr>"

definition store_12 :: MemStorage where
  "store_12 =
     \<lparr>codeRedEvents = [(1, event_1), (2, event_2)], packs = [(1, pack_1), (2, pack_2)],
      currentCodeRedId = 3, currentPackId = 3\<rparr>"

definition orphan_request :: InsertPack where
  "orphan_request =
     \<lparr>ins_codeRedEventId = 42, ins_name = ''Pack A'', ins_composition = ''6 FFP'',
      ins_ffp = Some 6, ins_cryo = None, ins_platelets = None,
      ins_runnerEstimatedArrivalAtLab = None, ins_runnerEstimatedArrivalAtClinical = None\<rparr>"

text \<open>
  Two host time zones. \<open>LocalTZA_fixed\<close> is a zone with one offset throughout, such as UTC.
  \<open>LocalTZA_London_2026\<close> is Europe/London for the instants of 2026: British Summer Time,
  one hour ahead of UTC, from 2026-03-29T01:00Z (\<open>1774746000000\<close>) until 2026-10-25T01:00Z
  (\<open>1792890000000\<close>), and UTC otherwise. Local times from 01:00 to 02:00 on 29 March are
  skipped and those from 01:00 to 02:00 on 25 October occur twice; both are read by the
  offset before the transition.
\<close>

definition LocalTZA_fixed :: "int \<Rightarrow> TimeZone" where
  "LocalTZA_fixed offset t isUTC = offset"

definition LocalTZA_London_2026 :: TimeZone where
  "LocalTZA_London_2026 t isUTC =
     (if isUTC
      then (if 1774746000000 \<le> t \<and> t < 1792890000000 then 3600000 else 0)
      else (if 1774746000000 + 3600000 \<le> t \<and> t < 1792890000000 + 3600000
            then 3600000 else 0))"

section \<open>Auxiliary facts\<close>

text \<open>A time value is the sum of its day, hour, minute, second and millisecond fields.\<close>

lemma time_fields:
  fixes l :: int
  shows "(l div 86400000) * 86400000 + ((l div 3600000) mod 24) * 3600000
            + ((l div 60000) mod 60) * 60000 + ((l div 1000) mod 60) * 1000 + l mod 1000 = l"
proof -
  define a where "a = l div 1000"
  define b where "b = a div 60"
  define c where "c = b div 60"
  define d where "d = c div 24"
  have b: "l div 60000 = b"
    using zdiv_zmult2_eq [of 60 l 1000] by (simp add: a_def b_def)
  have c: "l div 3600000 = c"
    using zdiv_zmult2_eq [of 60 l 60000] b by (simp add: c_def)
  have d: "l div 86400000 = d"
    using zdiv_zmult2_eq [of 24 l 3600000] c by (simp add: d_def)
  have 1: "l = a * 1000 + l mod 1000" by (simp add: a_def)
  have 2: "a = b * 60 + a mod 60" by (simp add: b_def)
  have 3: "b = c * 60 + b mod 60" by (simp add: c_def)
  have 4: "c = d * 24 + c mod 24" by (simp add: d_def)
  define r1 where "r1 = l mod 1000"
  define r2 where "r2 = a mod 60"
  define r3 where "r3 = b mod 60"
  define r4 where "r4 = c mod 24"
  have "d * 86400000 + r4 * 3600000 + r3 * 60000 + r2 * 1000 + r1 = l"
    using 1 2 3 4 unfolding r1_def [symmetric] r2_def [symmetric] r3_def [symmetric]
      r4_def [symmetric]
    by simp
  then show ?thesis
    by (simp only: b c d a_def [symmetric] r1_def r2_def r3_def r4_def)
qed

text \<open>
  Setting the minutes field to its value plus \<open>m\<close> moves the local time by \<open>m\<close> minutes; the
  instant is that local time read back by its own offset.
\<close>

lemma MakeDate_add_minutes:
  "MakeDate (Day t) (MakeTime (HourFromTime t) (MinFromTime t + m) (SecFromTime t) (msFromTime t))
     = t + m * 60000"
proof -
  have "MakeDate (Day t)
          (MakeTime (HourFromTime t) (MinFromTime t + m) (SecFromTime t) (msFromTime t)) =
        (t div 86400000) * 86400000 + ((t div 3600000) mod 24) * 3600000
          + ((t div 60000) mod 60) * 60000 + ((t div 1000) mod 60) * 1000 + t mod 1000
          + m * 60000"
    by (simp add: MakeDate_def MakeTime_def Day_def HourFromTime_def MinFromTime_def
        SecFromTime_def msFromTime_def algebra_simps)
  also have "\<dots> = t + m * 60000"
    by (simp only: time_fields)
  finally show ?thesis .
qed

lemma Date_setMinutes_add:
  "Date_setMinutes LocalTZA now (Date_getMinutes LocalTZA now + m) =
     UTC LocalTZA (LocalTime LocalTZA now + m * 60000)"
  by (simp only: Date_setMinutes_def Date_getMinutes_def Let_def MakeDate_add_minutes)

text \<open>\<open>get\<close> after \<open>set\<close>.\<close>

lemma map_of_update_same: "Map_get (Map_set k v m) k = Some v"
  by (simp add: update_conv')

lemma map_of_update_other: "j \<noteq> k \<Longrightarrow> Map_get (Map_set k v m) j = Map_get m j"
  by (simp add: update_conv')

section \<open>Lookup by id\<close>

text \<open>
  Claim C6. \<open>getCodeRedEventById\<close> returns the incident, joined with its packs, when the
  incident is stored under the id and is active; for a stored but inactive incident and for
  a missing id it returns null.
\<close>

theorem getCodeRedEventById_only_active:
  "(Map_get (codeRedEvents s) i = Some event \<and> isActive event \<longrightarrow>
      getCodeRedEventById i s =
        Some (event, filter (\<lambda>pack. codeRedEventId pack = i) (Map_values (packs s))))
   \<and> (Map_get (codeRedEvents s) i = Some event \<and> \<not> isActive event \<longrightarrow>
        getCodeRedEventById i s = None)
   \<and> (Map_get (codeRedEvents s) i = None \<longrightarrow> getCodeRedEventById i s = None)"
  by (simp add: getCodeRedEventById_def getPacksByCodeRedEventId_def)

theorem getCodeRedEventById_only_active_witness:
  "getCodeRedEventById 1 store_12 = Some (event_1, [pack_1])
   \<and> getCodeRedEventById 2 store_12 = None
   \<and> getCodeRedEventById 7 store_12 = None"
proof -
  have a: "Map_get (codeRedEvents store_12) 1 = Some event_1 \<and> isActive event_1"
    by (simp add: store_12_def event_1_def)
  have b: "Map_get (codeRedEvents store_12) 2 = Some event_2 \<and> \<not> isActive event_2"
    by (simp add: store_12_def event_2_def)
  have c: "Map_get (codeRedEvents store_12) 7 = None"
    by (simp add: store_12_def)
  have p: "filter (\<lambda>pack. codeRedEventId pack = 1) (Map_values (packs store_12)) = [pack_1]"
    by (simp add: store_12_def pack_1_def pack_2_def)
  from getCodeRedEventById_only_active [of store_12 1 event_1] a p
  have "getCodeRedEventById 1 store_12 = Some (event_1, [pack_1])" by simp
  moreover from getCodeRedEventById_only_active [of store_12 2 event_2] b
  have "getCodeRedEventById 2 store_12 = None" by blast
  moreover from getCodeRedEventById_only_active [of store_12 7] c
  have "getCodeRedEventById 7 store_12 = None" by blast
  ultimately show ?thesis by blast
qed

section \<open>Stage transitions\<close>

text \<open>
  The \<open>switch\<close> writes the slot that \<open>getStageTime\<close> reads for the same stage, and no other
  field.
\<close>

lemma stamp_stage_slots:
  assumes "1 \<le> t" and "t \<le> 6"
  shows "getStageTime k (stamp_stage t now p) = (if k = t then Some now else getStageTime k p)"
proof -
  from assms consider "t = 1" | "t = 2" | "t = 3" | "t = 4" | "t = 5" | "t = 6"
    by linarith
  then show ?thesis
    by cases (simp_all add: stamp_stage_def getStageTime_def)
qed

lemma stamp_stage_rest:
  "currentStage (stamp_stage t now p) = currentStage p"
  "id_pk (stamp_stage t now p) = id_pk p"
  "codeRedEventId (stamp_stage t now p) = codeRedEventId p"
  "name_pk (stamp_stage t now p) = name_pk p"
  "composition (stamp_stage t now p) = composition p"
  "ffp (stamp_stage t now p) = ffp p"
  "cryo (stamp_stage t now p) = cryo p"
  "platelets (stamp_stage t now p) = platelets p"
  "estimatedReadyTime (stamp_stage t now p) = estimatedReadyTime p"
  "runnerEstimatedArrivalAtLab (stamp_stage t now p) = runnerEstimatedArrivalAtLab p"
  "runnerEstimatedArrivalAtClinical (stamp_stage t now p) = runnerEstimatedArrivalAtClinical p"
  by (simp_all add: stamp_stage_def)

lemma getStageTime_currentStage:
  "getStageTime k (p\<lparr>currentStage := c\<rparr>) = getStageTime k p"
  by (simp add: getStageTime_def)

lemma parse_stage_in_range:
  "1 \<le> ups_stage body \<Longrightarrow> ups_stage body \<le> 6 \<Longrightarrow> updatePackStageSchema_parse body = Inr body"
  by (simp add: updatePackStageSchema_parse_def)

text \<open>
  Claim C1. For a stored pack, whatever its current stage, and every target stage \<open>t\<close> from
  1 to 6, the stage update succeeds, in storage and through the route alike: the returned
  pack is stored under the pack's id, its \<open>currentStage\<close> is \<open>t\<close>, the timestamp of stage
  \<open>t\<close> is the call instant, the timestamps of the other five stages and all remaining
  fields are as before. Nothing relates \<open>t\<close> to the current stage.
\<close>

theorem patch_packs_stage_any_target:
  assumes "Map_get (packs s) pid = Some pack" and "1 \<le> t" and "t \<le> 6"
  shows "\<exists>updatedPack s'.
           updatePackStage now \<lparr>ups_packId = pid, ups_stage = t\<rparr> s = (Inr updatedPack, s')
           \<and> patch_packs_stage now \<lparr>ups_packId = pid, ups_stage = t\<rparr> s = (Inr updatedPack, s')
           \<and> s' = s\<lparr>packs := Map_set pid updatedPack (packs s)\<rparr>
           \<and> getPackById pid s' = Some updatedPack
           \<and> currentStage updatedPack = t
           \<and> (\<forall>k. getStageTime k updatedPack = (if k = t then Some now else getStageTime k pack))
           \<and> id_pk updatedPack = id_pk pack
           \<and> codeRedEventId updatedPack = codeRedEventId pack
           \<and> name_pk updatedPack = name_pk pack
           \<and> composition updatedPack = composition pack
           \<and> ffp updatedPack = ffp pack
           \<and> cryo updatedPack = cryo pack
           \<and> platelets updatedPack = platelets pack
           \<and> estimatedReadyTime updatedPack = estimatedReadyTime pack
           \<and> runnerEstimatedArrivalAtLab updatedPack = runnerEstimatedArrivalAtLab pack
           \<and> runnerEstimatedArrivalAtClinical updatedPack = runnerEstimatedArrivalAtClinical pack"
proof -
  let ?u = "stamp_stage t now (pack\<lparr>currentStage := t\<rparr>)"
  let ?s' = "s\<lparr>packs := Map_set pid ?u (packs s)\<rparr>"
  have store: "updatePackStage now \<lparr>ups_packId = pid, ups_stage = t\<rparr> s = (Inr ?u, ?s')"
    using assms(1) by (simp add: updatePackStage_def Let_def)
  have route: "patch_packs_stage now \<lparr>ups_packId = pid, ups_stage = t\<rparr> s = (Inr ?u, ?s')"
    using assms(2,3) by (simp add: patch_packs_stage_def parse_stage_in_range store)
  have read: "getPackById pid ?s' = Some ?u"
    by (simp add: getPackById_def map_of_update_same)
  have slots: "\<forall>k. getStageTime k ?u = (if k = t then Some now else getStageTime k pack)"
    using assms(2,3) by (simp add: stamp_stage_slots getStageTime_currentStage)
  show ?thesis
    by (intro exI [of _ ?u] exI [of _ ?s'])
      (simp only: store route read slots stamp_stage_rest, simp)
qed

theorem patch_packs_stage_any_target_witness:
  "Map_get (packs store_12) 1 = Some pack_1 \<and> currentStage pack_1 = 4
   \<and> (\<exists>updatedPack.
         fst (patch_packs_stage 8000 \<lparr>ups_packId = 1, ups_stage = 2\<rparr> store_12) = Inr updatedPack
         \<and> currentStage updatedPack = 2
         \<and> getStageTime 2 updatedPack = Some 8000
         \<and> getStageTime 4 updatedPack = Some 1400)"
proof -
  have a: "Map_get (packs store_12) 1 = Some pack_1"
    by (simp add: store_12_def)
  have b: "currentStage pack_1 = 4" "getStageTime 4 pack_1 = Some 1400"
    by (simp_all add: pack_1_def getStageTime_def)
  from patch_packs_stage_any_target [OF a, of 2 8000]
  obtain u s' where u:
    "patch_packs_stage 8000 \<lparr>ups_packId = 1, ups_stage = 2\<rparr> store_12 = (Inr u, s')"
    "currentStage u = 2"
    "\<forall>k. getStageTime k u = (if k = 2 then Some 8000 else getStageTime k pack_1)"
    by auto
  have "getStageTime 2 u = Some 8000" "getStageTime 4 u = Some 1400"
    using u(3) b(2) by simp_all
  with a b(1) u(1,2) show ?thesis by auto
qed

text \<open>
  Claim C3. For every stage below 1 or above 6 the stage update fails in validation with a
  \<open>ZodError\<close> for the violated bound (the range error, answered with status 400), whatever
  the pack id, and the store, hence every pack, is unchanged.
\<close>

theorem patch_packs_stage_out_of_range:
  assumes "t < 1 \<or> 6 < t"
  shows "patch_packs_stage now \<lparr>ups_packId = pid, ups_stage = t\<rparr> s =
           (Inl (ZodError (if t < 1 then too_small else too_big)), s)"
  using assms by (auto simp add: patch_packs_stage_def updatePackStageSchema_parse_def)

theorem patch_packs_stage_out_of_range_witness:
  "patch_packs_stage 8000 \<lparr>ups_packId = 1, ups_stage = 0\<rparr> store_12 =
     (Inl (ZodError too_small), store_12)
   \<and> patch_packs_stage 8000 \<lparr>ups_packId = 1, ups_stage = 7\<rparr> store_12 =
     (Inl (ZodError too_big), store_12)"
  using patch_packs_stage_out_of_range [of 0 8000 1 store_12]
    patch_packs_stage_out_of_range [of 7 8000 1 store_12]
  by simp

text \<open>
  The bound is the schema's alone: called directly with a stage outside 1 to 6, the storage
  operation stores that stage and stamps nothing.
\<close>

lemma stamp_stage_out_of_range: "t < 1 \<or> 6 < t \<Longrightarrow> stamp_stage t now p = p"
  unfolding stamp_stage_def by (cases "t < 1") simp_all

lemma updatePackStage_unchecked:
  assumes "Map_get (packs s) pid = Some pack" and "t < 1 \<or> 6 < t"
  shows "updatePackStage now \<lparr>ups_packId = pid, ups_stage = t\<rparr> s =
           (Inr (pack\<lparr>currentStage := t\<rparr>),
            s\<lparr>packs := Map_set pid (pack\<lparr>currentStage := t\<rparr>) (packs s)\<rparr>)"
  using assms(1) by (simp add: updatePackStage_def Let_def stamp_stage_out_of_range [OF assms(2)])

section \<open>Ready-time estimates\<close>

text \<open>With \<open>null\<close> minutes the estimate of a stored pack is cleared, whatever it was.\<close>

lemma patch_packs_estimate_null:
  assumes "Map_get (packs s) pid = Some pack"
  shows "patch_packs_estimate LocalTZA now \<lparr>upe_packId = pid, upe_estimatedMinutes = None\<rparr> s =
           (Inr (pack\<lparr>estimatedReadyTime := None\<rparr>),
            s\<lparr>packs := Map_set pid (pack\<lparr>estimatedReadyTime := None\<rparr>) (packs s)\<rparr>)"
  using assms
  by (simp add: patch_packs_estimate_def updatePackEstimateSchema_parse_def
      updatePackEstimate_def Let_def)

text \<open>
  Minutes below 1 or above 120 fail in validation with a \<open>ZodError\<close> for the violated bound,
  and the store is unchanged.
\<close>

lemma patch_packs_estimate_out_of_range:
  assumes "m < 1 \<or> 120 < m"
  shows "patch_packs_estimate LocalTZA now \<lparr>upe_packId = pid, upe_estimatedMinutes = Some m\<rparr> s =
           (Inl (ZodError (if m < 1 then too_small else too_big)), s)"
  using assms by (auto simp add: patch_packs_estimate_def updatePackEstimateSchema_parse_def)

text \<open>
  With \<open>m\<close> minutes from 1 to 120 the estimate of a stored pack is the call instant's local
  time plus \<open>m\<close> minutes, read back as an instant by the offset of that local time.
\<close>

lemma patch_packs_estimate_in_range:
  assumes "Map_get (packs s) pid = Some pack" and "1 \<le> m" and "m \<le> 120"
  shows "patch_packs_estimate LocalTZA now \<lparr>upe_packId = pid, upe_estimatedMinutes = Some m\<rparr> s =
           (Inr (pack\<lparr>estimatedReadyTime :=
                   Some (UTC LocalTZA (LocalTime LocalTZA now + m * 60000))\<rparr>),
            s\<lparr>packs := Map_set pid
                  (pack\<lparr>estimatedReadyTime :=
                     Some (UTC LocalTZA (LocalTime LocalTZA now + m * 60000))\<rparr>) (packs s)\<rparr>)"
  using assms
  by (simp add: patch_packs_estimate_def updatePackEstimateSchema_parse_def
      updatePackEstimate_def Let_def Date_setMinutes_add)

text \<open>
  Where the offset of that local time is the offset in force at the call instant, the
  estimate is the call instant plus \<open>m\<close> minutes; in a zone of one offset this is always so.
\<close>

lemma UTC_LocalTime_same_offset:
  assumes "LocalTZA (LocalTime LocalTZA now + d) False = LocalTZA now True"
  shows "UTC LocalTZA (LocalTime LocalTZA now + d) = now + d"
  using assms by (simp add: UTC_def LocalTime_def)

lemma patch_packs_estimate_fixed_offset:
  assumes "Map_get (packs s) pid = Some pack" and "1 \<le> m" and "m \<le> 120"
  shows "fst (patch_packs_estimate (LocalTZA_fixed offset) now
                \<lparr>upe_packId = pid, upe_estimatedMinutes = Some m\<rparr> s) =
           Inr (pack\<lparr>estimatedReadyTime := Some (now + m * 60000)\<rparr>)"
proof -
  have "UTC (LocalTZA_fixed offset) (LocalTime (LocalTZA_fixed offset) now + m * 60000) =
          now + m * 60000"
    by (rule UTC_LocalTime_same_offset) (simp add: LocalTZA_fixed_def)
  with patch_packs_estimate_in_range [OF assms, of "LocalTZA_fixed offset" now]
  show ?thesis by simp
qed

text \<open>
  Claim C7, at the end of British Summer Time. With Europe/London as the host's zone and the
  stored pack 1: a call at 2026-10-25T00:50Z (local time 01:50, summer time) with 20 minutes
  sets the local time 02:10, which exists only in winter time, so the estimate is the call
  instant plus 80 minutes; a call at 2026-10-25T01:30Z (local time 01:30, winter time) with 5
  minutes sets the local time 01:35, which is read as its first occurrence, in summer time,
  so the estimate is 55 minutes before the call instant. Neither is the call instant plus the
  minutes given.
\<close>

theorem patch_packs_estimate_daylight_saving:
  "Map_get (packs store_12) 1 = Some pack_1
   \<and> fst (patch_packs_estimate LocalTZA_London_2026 1792889400000
            \<lparr>upe_packId = 1, upe_estimatedMinutes = Some 20\<rparr> store_12) =
       Inr (pack_1\<lparr>estimatedReadyTime := Some (1792889400000 + 80 * 60000)\<rparr>)
   \<and> fst (patch_packs_estimate LocalTZA_London_2026 1792891800000
            \<lparr>upe_packId = 1, upe_estimatedMinutes = Some 5\<rparr> store_12) =
       Inr (pack_1\<lparr>estimatedReadyTime := Some (1792891800000 - 55 * 60000)\<rparr>)"
proof -
  have a: "Map_get (packs store_12) 1 = Some pack_1"
    by (simp add: store_12_def)
  have b: "UTC LocalTZA_London_2026 (LocalTime LocalTZA_London_2026 1792889400000 + 20 * 60000)
             = 1792889400000 + 80 * 60000"
    by (simp add: UTC_def LocalTime_def LocalTZA_London_2026_def)
  have c: "UTC LocalTZA_London_2026 (LocalTime LocalTZA_London_2026 1792891800000 + 5 * 60000)
             = 1792891800000 - 55 * 60000"
    by (simp add: UTC_def LocalTime_def LocalTZA_London_2026_def)
  from patch_packs_estimate_in_range [OF a, of 20 LocalTZA_London_2026 1792889400000]
    patch_packs_estimate_in_range [OF a, of 5 LocalTZA_London_2026 1792891800000] a b c
  show ?thesis by simp
qed

section \<open>Assignment\<close>

text \<open>
  Claim C10. For an incident that is stored but inactive, \<open>getCodeRedEventById\<close> returns null,
  and \<open>assignUserToCodeRed\<close> still overwrites the field of the given role and leaves the other
  role's field as it was; the lookup by id returns null afterwards too.
\<close>

theorem assignUserToCodeRed_inactive:
  assumes "Map_get (codeRedEvents s) i = Some event" and "\<not> isActive event"
  shows "getCodeRedEventById i s = None
         \<and> Map_get (codeRedEvents (assignUserToCodeRed i userId runner s)) i =
             Some (event\<lparr>assignedRunnerId := Some userId\<rparr>)
         \<and> Map_get (codeRedEvents (assignUserToCodeRed i userId clinician s)) i =
             Some (event\<lparr>assignedClinicianId := Some userId\<rparr>)
         \<and> getCodeRedEventById i (assignUserToCodeRed i userId ut s) = None"
  using assms
  by (simp add: getCodeRedEventById_def assignUserToCodeRed_def Let_def map_of_update_same)

theorem assignUserToCodeRed_inactive_witness:
  "Map_get (codeRedEvents store_12) 2 = Some event_2 \<and> \<not> isActive event_2
   \<and> assignedRunnerId event_2 = Some ''r1''
   \<and> getCodeRedEventById 2 store_12 = None
   \<and> Map_get (codeRedEvents (assignUserToCodeRed 2 ''r9'' runner store_12)) 2 =
        Some (event_2\<lparr>assignedRunnerId := Some ''r9''\<rparr>)"
proof -
  have a: "Map_get (codeRedEvents store_12) 2 = Some event_2"
    by (simp add: store_12_def)
  have b: "\<not> isActive event_2" "assignedRunnerId event_2 = Some ''r1''"
    by (simp_all add: event_2_def)
  from assignUserToCodeRed_inactive [OF a b(1), of "''r9''"] a b show ?thesis
    by simp
qed

section \<open>Location updates\<close>

text \<open>
  Claim C5. For an incident stored under the id, at location \<open>L1\<close>, the location update
  returns and stores the incident with location \<open>L2\<close> and with exactly one entry appended to
  its history, the text of the call instant followed by
  \<open>: Moved from "L1" to "L2"\<close>; every other incident and the packs are as before. For a
  missing id the call fails with the not-found error and the store is unchanged, so no
  location and no history changes.
\<close>

theorem updateCodeRedLocation_cases:
  "(Map_get (codeRedEvents s) i = Some event \<longrightarrow>
      (\<exists>updatedEvent s'.
         updateCodeRedLocation toISOString now \<lparr>ucl_codeRedId = i, ucl_newLocation = L2\<rparr> s =
           (Inr updatedEvent, s')
         \<and> Map_get (codeRedEvents s') i = Some updatedEvent
         \<and> location updatedEvent = L2
         \<and> locationHistory updatedEvent =
             locationHistory event @
               [toISOString now @ '': Moved from '' @ [CHR 0x22] @ location event @ [CHR 0x22] @
                '' to '' @ [CHR 0x22] @ L2 @ [CHR 0x22]]
         \<and> length (locationHistory updatedEvent) = length (locationHistory event) + 1
         \<and> updatedEvent\<lparr>location := location event, locationHistory := locationHistory event\<rparr>
             = event
         \<and> (\<forall>j. j \<noteq> i \<longrightarrow> Map_get (codeRedEvents s') j = Map_get (codeRedEvents s) j)
         \<and> packs s' = packs s))
   \<and> (Map_get (codeRedEvents s) i = None \<longrightarrow>
        updateCodeRedLocation toISOString now \<lparr>ucl_codeRedId = i, ucl_newLocation = L2\<rparr> s =
          (Inl (NotFound_CodeRedEvent i), s))"
  by (simp add: updateCodeRedLocation_def Let_def locationUpdate_def map_of_update_same
      map_of_update_other)

theorem updateCodeRedLocation_cases_witness:
  "(\<exists>updatedEvent s'.
      updateCodeRedLocation (\<lambda>t. ''1970-01-01T00:00:08.000Z'') 8000
        \<lparr>ucl_codeRedId = 1, ucl_newLocation = ''ICU''\<rparr> store_12 = (Inr updatedEvent, s')
      \<and> location updatedEvent = ''ICU''
      \<and> locationHistory updatedEvent =
           [''1970-01-01T00:00:08.000Z: Moved from '' @ [CHR 0x22] @ ''ED Resus 1'' @
            [CHR 0x22] @ '' to '' @ [CHR 0x22] @ ''ICU'' @ [CHR 0x22]])
   \<and> updateCodeRedLocation (\<lambda>t. ''1970-01-01T00:00:08.000Z'') 8000
        \<lparr>ucl_codeRedId = 7, ucl_newLocation = ''ICU''\<rparr> store_12 =
        (Inl (NotFound_CodeRedEvent 7), store_12)"
proof -
  have a: "Map_get (codeRedEvents store_12) 1 = Some event_1"
    by (simp add: store_12_def)
  have b: "location event_1 = ''ED Resus 1''" "locationHistory event_1 = []"
    by (simp_all add: event_1_def)
  have c: "Map_get (codeRedEvents store_12) 7 = None"
    by (simp add: store_12_def)
  from updateCodeRedLocation_cases
         [of store_12 1 event_1 "\<lambda>t. ''1970-01-01T00:00:08.000Z''" 8000 "''ICU''"] a b
  have 1: "\<exists>updatedEvent s'.
      updateCodeRedLocation (\<lambda>t. ''1970-01-01T00:00:08.000Z'') 8000
        \<lparr>ucl_codeRedId = 1, ucl_newLocation = ''ICU''\<rparr> store_12 = (Inr updatedEvent, s')
      \<and> location updatedEvent = ''ICU''
      \<and> locationHistory updatedEvent =
           [''1970-01-01T00:00:08.000Z: Moved from '' @ [CHR 0x22] @ ''ED Resus 1'' @
            [CHR 0x22] @ '' to '' @ [CHR 0x22] @ ''ICU'' @ [CHR 0x22]]"
    by auto
  from updateCodeRedLocation_cases
         [of store_12 7 event_1 "\<lambda>t. ''1970-01-01T00:00:08.000Z''" 8000 "''ICU''"] c
  have 2: "updateCodeRedLocation (\<lambda>t. ''1970-01-01T00:00:08.000Z'') 8000
        \<lparr>ucl_codeRedId = 7, ucl_newLocation = ''ICU''\<rparr> store_12 =
        (Inl (NotFound_CodeRedEvent 7), store_12)"
    by blast
  from 1 2 show ?thesis by blast
qed

section \<open>Unique keys\<close>

text \<open>The new store has unique keys and every operation keeps them unique.\<close>

lemma keys_unique_new: "keys_unique MemStorage_new"
  by (simp add: keys_unique_def MemStorage_new_def)

lemma keys_unique_createCodeRedEvent:
  "keys_unique s \<Longrightarrow> keys_unique (snd (createCodeRedEvent insertEvent s))"
  by (simp add: keys_unique_def createCodeRedEvent_def Let_def distinct_update)

lemma keys_unique_createPack:
  "keys_unique s \<Longrightarrow> keys_unique (snd (createPack now insertPack s))"
  by (simp add: keys_unique_def createPack_def Let_def distinct_update)

lemma keys_unique_assignUserToCodeRed:
  "keys_unique s \<Longrightarrow> keys_unique (assignUserToCodeRed i userId ut s)"
  by (simp add: keys_unique_def assignUserToCodeRed_def Let_def distinct_update
      split: option.split)

lemma keys_unique_deactivateCodeRedEvent:
  "keys_unique s \<Longrightarrow> keys_unique (deactivateCodeRedEvent now i s)"
  by (simp add: keys_unique_def deactivateCodeRedEvent_def Let_def distinct_update
      split: option.split)

lemma keys_unique_updateCodeRedLocation:
  "keys_unique s \<Longrightarrow> keys_unique (snd (updateCodeRedLocation toISOString now data s))"
  by (simp add: keys_unique_def updateCodeRedLocation_def Let_def distinct_update
      split: option.split)

lemma keys_unique_patch_packs_stage:
  "keys_unique s \<Longrightarrow> keys_unique (snd (patch_packs_stage now body s))"
  by (simp add: keys_unique_def patch_packs_stage_def updatePackStage_def Let_def
      distinct_update split: option.split sum.split)

lemma keys_unique_patch_packs_estimate:
  "keys_unique s \<Longrightarrow> keys_unique (snd (patch_packs_estimate LocalTZA now body s))"
  by (simp add: keys_unique_def patch_packs_estimate_def updatePackEstimate_def Let_def
      distinct_update split: option.split sum.split)

section \<open>Deleting an incident\<close>

text \<open>Deleting a list of keys one by one keeps the entries whose key is not in the list.\<close>

lemma fold_Map_delete:
  "fold (\<lambda>k m. Map_delete k m) ks m = filter (\<lambda>(k, _). k \<notin> set ks) m"
proof (induction ks arbitrary: m)
  case Nil
  then show ?case by simp
next
  case (Cons k ks)
  have "fold (\<lambda>k m. Map_delete k m) (k # ks) m =
          fold (\<lambda>k m. Map_delete k m) ks (Map_delete k m)"
    by simp
  also have "\<dots> = filter (\<lambda>(k', _). k' \<notin> set ks) (Map_delete k m)"
    by (rule Cons.IH)
  also have "\<dots> = filter (\<lambda>(k', _). k' \<notin> set (k # ks)) m"
    by (auto simp add: AList.delete_eq intro: filter_cong)
  finally show ?case .
qed

text \<open>With unique keys, the keys of the entries that satisfy \<open>P\<close> identify those entries.\<close>

lemma delete_selected_keys:
  assumes "distinct (map fst m)"
  shows "filter (\<lambda>(k, _). k \<notin> set (map (\<lambda>(k, _). k) (filter P m))) m = filter (\<lambda>x. \<not> P x) m"
proof (rule filter_cong [OF refl])
  fix x assume x: "x \<in> set m"
  obtain k v where kv: "x = (k, v)" by (cases x)
  have "k \<in> set (map (\<lambda>(k, _). k) (filter P m)) \<longleftrightarrow> P (k, v)"
  proof
    assume "k \<in> set (map (\<lambda>(k, _). k) (filter P m))"
    then obtain v' where v': "(k, v') \<in> set m" "P (k, v')" by auto
    from assms x kv v'(1) have "v' = v"
      by (meson eq_key_imp_eq_value)
    with v'(2) show "P (k, v)" by simp
  next
    assume "P (k, v)"
    with x kv have "(k, v) \<in> set (filter P m)" by simp
    then show "k \<in> set (map (\<lambda>(k, _). k) (filter P m))" by force
  qed
  with kv show "(case x of (k, _) \<Rightarrow> k \<notin> set (map (\<lambda>(k, _). k) (filter P m))) = (\<not> P x)"
    by simp
qed

lemma packs_deleteCodeRedEvent:
  assumes "distinct (map fst (packs s))"
  shows "packs (deleteCodeRedEvent i s) =
           filter (\<lambda>(_, pack). codeRedEventId pack \<noteq> i) (packs s)"
proof -
  have "packs (deleteCodeRedEvent i s) =
          filter (\<lambda>(k, _). k \<notin> set (map (\<lambda>(k, _). k)
                    (filter (\<lambda>(_, pack). codeRedEventId pack = i) (packs s)))) (packs s)"
    by (simp add: deleteCodeRedEvent_def Let_def fold_Map_delete)
  also have "\<dots> = filter (\<lambda>x. \<not> (case x of (_, pack) \<Rightarrow> codeRedEventId pack = i)) (packs s)"
    by (rule delete_selected_keys [OF assms])
  also have "\<dots> = filter (\<lambda>(_, pack). codeRedEventId pack \<noteq> i) (packs s)"
    by (rule filter_cong) auto
  finally show ?thesis .
qed

lemma map_of_filter_value:
  assumes "distinct (map fst m)"
  shows "Map_get (filter (\<lambda>(_, v). Q v) m) k =
           (case Map_get m k of None \<Rightarrow> None | Some v \<Rightarrow> if Q v then Some v else None)"
  using assms
proof (induction m)
  case Nil
  then show ?case by simp
next
  case (Cons x m)
  obtain k' v' where x: "x = (k', v')" by (cases x)
  from Cons.prems x have notin: "k' \<notin> fst ` set m" and d: "distinct (map fst m)"
    by auto
  from notin have none: "Map_get m k' = None"
    by (simp add: map_of_eq_None_iff)
  show ?case
    using Cons.IH [OF d] x none by (auto split: option.splits)
qed

lemma filter_values_other:
  assumes "j \<noteq> i"
  shows "filter (\<lambda>v. f v = j) (Map_values (filter (\<lambda>(_, v). f v \<noteq> i) m)) =
           filter (\<lambda>v. f v = j) (Map_values m)"
  using assms by (induction m) auto

lemma events_deleteCodeRedEvent:
  "codeRedEvents (deleteCodeRedEvent i s) = Map_delete i (codeRedEvents s)"
  by (simp add: deleteCodeRedEvent_def Let_def)

text \<open>
  Claim C4. In a store with unique keys, after \<open>deleteCodeRedEvent i\<close> the incident is
  gone and the lookup by id returns null; the packs that remain are exactly the packs of
  other incidents, in their order: no pack of incident \<open>i\<close> can be read by id or listed,
  every pack of another incident reads as before, and the other incidents are as before.
\<close>

theorem deleteCodeRedEvent_cascade:
  assumes "keys_unique s"
  shows "Map_get (codeRedEvents (deleteCodeRedEvent i s)) i = None
         \<and> getCodeRedEventById i (deleteCodeRedEvent i s) = None
         \<and> getPacksByCodeRedEventId i (deleteCodeRedEvent i s) = []
         \<and> (\<forall>packId pack. getPackById packId (deleteCodeRedEvent i s) = Some pack \<longrightarrow>
               codeRedEventId pack \<noteq> i)
         \<and> (\<forall>packId pack. getPackById packId s = Some pack \<and> codeRedEventId pack \<noteq> i \<longrightarrow>
               getPackById packId (deleteCodeRedEvent i s) = Some pack)
         \<and> (\<forall>j. j \<noteq> i \<longrightarrow>
               getPacksByCodeRedEventId j (deleteCodeRedEvent i s) =
                 getPacksByCodeRedEventId j s)
         \<and> (\<forall>j. j \<noteq> i \<longrightarrow>
               Map_get (codeRedEvents (deleteCodeRedEvent i s)) j = Map_get (codeRedEvents s) j)"
proof -
  from assms have d: "distinct (map fst (packs s))"
    by (simp add: keys_unique_def)
  note p = packs_deleteCodeRedEvent [OF d, of i]
  have e: "Map_get (codeRedEvents (deleteCodeRedEvent i s)) i = None"
    by (simp add: events_deleteCodeRedEvent delete_conv')
  have g: "getCodeRedEventById i (deleteCodeRedEvent i s) = None"
    by (simp add: getCodeRedEventById_def e)
  have l: "getPacksByCodeRedEventId i (deleteCodeRedEvent i s) = []"
    by (auto simp add: getPacksByCodeRedEventId_def p filter_empty_conv)
  have r: "getPackById packId (deleteCodeRedEvent i s) =
             (case getPackById packId s of
                None \<Rightarrow> None
              | Some pack \<Rightarrow> if codeRedEventId pack \<noteq> i then Some pack else None)"
    for packId
    by (simp add: getPackById_def p map_of_filter_value [OF d])
  have gone: "\<forall>packId pack. getPackById packId (deleteCodeRedEvent i s) = Some pack \<longrightarrow>
               codeRedEventId pack \<noteq> i"
    by (auto simp add: r split: option.splits if_splits)
  have kept: "\<forall>packId pack. getPackById packId s = Some pack \<and> codeRedEventId pack \<noteq> i \<longrightarrow>
               getPackById packId (deleteCodeRedEvent i s) = Some pack"
    by (auto simp add: r)
  have others: "\<forall>j. j \<noteq> i \<longrightarrow>
               getPacksByCodeRedEventId j (deleteCodeRedEvent i s) =
                 getPacksByCodeRedEventId j s"
  proof (intro allI impI)
    fix j assume "j \<noteq> i"
    from filter_values_other [OF this, of codeRedEventId "packs s"] show "getPacksByCodeRedEventId j (deleteCodeRedEvent i s) =
                 getPacksByCodeRedEventId j s"
      by (simp add: getPacksByCodeRedEventId_def p)
  qed
  have ev: "\<forall>j. j \<noteq> i \<longrightarrow>
               Map_get (codeRedEvents (deleteCodeRedEvent i s)) j = Map_get (codeRedEvents s) j"
    by (simp add: events_deleteCodeRedEvent delete_conv')
  from e g l gone kept others ev show ?thesis by blast
qed

theorem deleteCodeRedEvent_cascade_witness:
  "keys_unique store_12
   \<and> getCodeRedEventById 1 store_12 = Some (event_1, [pack_1])
   \<and> getCodeRedEventById 1 (deleteCodeRedEvent 1 store_12) = None
   \<and> getPacksByCodeRedEventId 1 (deleteCodeRedEvent 1 store_12) = []
   \<and> getPackById 2 (deleteCodeRedEvent 1 store_12) = Some pack_2"
proof -
  have a: "keys_unique store_12"
    by (simp add: keys_unique_def store_12_def)
  have b: "getCodeRedEventById 1 store_12 = Some (event_1, [pack_1])"
    by (simp add: getCodeRedEventById_def getPacksByCodeRedEventId_def store_12_def
        event_1_def pack_1_def pack_2_def)
  have c: "getPackById 2 store_12 = Some pack_2 \<and> codeRedEventId pack_2 \<noteq> 1"
    by (simp add: getPackById_def store_12_def pack_2_def)
  from deleteCodeRedEvent_cascade [OF a, of 1] c
  have "getCodeRedEventById 1 (deleteCodeRedEvent 1 store_12) = None"
    and "getPacksByCodeRedEventId 1 (deleteCodeRedEvent 1 store_12) = []"
    and "getPackById 2 (deleteCodeRedEvent 1 store_12) = Some pack_2"
    by blast+
  with a b show ?thesis by blast
qed

text \<open>Deletion keeps the keys unique.\<close>

lemma keys_unique_deleteCodeRedEvent:
  "keys_unique s \<Longrightarrow> keys_unique (deleteCodeRedEvent i s)"
  by (simp add: keys_unique_def packs_deleteCodeRedEvent events_deleteCodeRedEvent
      distinct_delete distinct_map_filter)

section \<open>The audit listing\<close>

text \<open>Insertion keeps the elements and, for a comparator that is a difference of keys, the order.\<close>

lemma mset_insort_cmp: "mset (insort_cmp compareFn a bs) = add_mset a (mset bs)"
  by (induction bs) auto

lemma mset_Array_sort: "mset (Array_sort compareFn xs) = mset xs"
  by (induction xs) (simp_all add: Array_sort_def mset_insort_cmp)

lemma set_insort_cmp: "set (insort_cmp compareFn a bs) = insert a (set bs)"
  by (induction bs) auto

lemma sorted_insort_cmp:
  assumes "sorted_wrt (\<lambda>a b. key b \<le> key a) bs"
  shows "sorted_wrt (\<lambda>a b. key b \<le> key a) (insort_cmp (\<lambda>a b. key b - key a) a bs)"
  using assms
proof (induction bs)
  case Nil
  then show ?case by simp
next
  case (Cons b bs)
  show ?case
  proof (cases "key b - key a \<le> 0")
    case True
    with Cons.prems show ?thesis by auto
  next
    case False
    with Cons show ?thesis by (auto simp add: set_insort_cmp)
  qed
qed

lemma sorted_Array_sort:
  "sorted_wrt (\<lambda>a b. key b \<le> (key a :: int)) (Array_sort (\<lambda>a b. key b - key a) xs)"
  by (induction xs) (simp_all add: Array_sort_def sorted_insort_cmp)

text \<open>
  Claim C9. The audit listing holds every stored incident exactly once, active or not, each
  joined with its packs, and is ordered by activation time, the most recent first.
\<close>

theorem getAllCodeRedEventsForAudit_all_sorted:
  "mset (map fst (getAllCodeRedEventsForAudit s)) = mset (Map_values (codeRedEvents s))
   \<and> sorted_wrt (\<lambda>a b. activationTime b \<le> activationTime a)
        (map fst (getAllCodeRedEventsForAudit s))
   \<and> map snd (getAllCodeRedEventsForAudit s) =
        map (\<lambda>event. getPacksByCodeRedEventId (id_ev event) s)
          (map fst (getAllCodeRedEventsForAudit s))"
  by (simp add: getAllCodeRedEventsForAudit_def Let_def comp_def mset_Array_sort
      sorted_Array_sort)

text \<open>On the example store the deactivated incident 2, activated later, comes first.\<close>

lemma getAllCodeRedEventsForAudit_store_12:
  "map fst (getAllCodeRedEventsForAudit store_12) = [event_2, event_1]"
  by (simp add: getAllCodeRedEventsForAudit_def Array_sort_def store_12_def event_1_def
      event_2_def)

section \<open>Creating a pack\<close>

text \<open>
  \<open>createPack\<close> has no failure branch: \<open>POST /api/packs\<close> parses the body, which for a
  well-typed \<open>InsertPack\<close> returns it, and calls \<open>createPack\<close>. On the new store, which has
  no incident, a request for incident 42 stores a pack that reads back by id and by incident.
\<close>

theorem createPack_missing_parent_counterexample:
  "Map_get (codeRedEvents MemStorage_new) (ins_codeRedEventId orphan_request) = None
   \<and> getPackById 1 (snd (createPack 7777 orphan_request MemStorage_new)) =
       Some (fst (createPack 7777 orphan_request MemStorage_new))
   \<and> codeRedEventId (fst (createPack 7777 orphan_request MemStorage_new)) = 42
   \<and> getPacksByCodeRedEventId 42 (snd (createPack 7777 orphan_request MemStorage_new)) =
       [fst (createPack 7777 orphan_request MemStorage_new)]"
  by (simp add: createPack_def MemStorage_new_def orphan_request_def getPackById_def
      getPacksByCodeRedEventId_def Let_def)

text \<open>
  Claim C2, as the code has it. \<open>createPack\<close> does not read the incidents: for every request,
  whether or not its \<open>codeRedEventId\<close> refers to a stored incident, it succeeds and stores
  under the next pack id a pack with that \<open>codeRedEventId\<close>, stage 1, the call instant as
  \<open>orderReceivedTime\<close>, and no other stage timestamp and no estimate; the incidents are
  unchanged, and replacing them by any others changes nothing else in the outcome.
\<close>

theorem createPack_ignores_parent:
  "getPackById (currentPackId s) (snd (createPack now insertPack s)) =
     Some (fst (createPack now insertPack s))
   \<and> id_pk (fst (createPack now insertPack s)) = currentPackId s
   \<and> codeRedEventId (fst (createPack now insertPack s)) = ins_codeRedEventId insertPack
   \<and> currentStage (fst (createPack now insertPack s)) = 1
   \<and> (\<forall>k. getStageTime k (fst (createPack now insertPack s)) =
          (if k = 1 then Some now else None))
   \<and> estimatedReadyTime (fst (createPack now insertPack s)) = None
   \<and> codeRedEvents (snd (createPack now insertPack s)) = codeRedEvents s
   \<and> createPack now insertPack (s\<lparr>codeRedEvents := events\<rparr>) =
       (fst (createPack now insertPack s),
        (snd (createPack now insertPack s))\<lparr>codeRedEvents := events\<rparr>)"
  by (simp add: createPack_def Let_def getPackById_def map_of_update_same getStageTime_def)

end
